theory Spec2Isabelle
  imports Main "HOL-Library.Word"
begin

section \<open>Deferred values\<close>

text \<open>
  Every construct of the stack is declared in the scope \<open>self\<close> under a literal id
  (\<open>"SonarQubeVPC"\<close>, \<open>"SonarQubeDBSecret"\<close>, ...). A Python variable that holds a
  construct is modelled by that id, so a reference by identity is a reference to the id.
\<close>

type_synonym construct_id = string

text \<open>
  An attribute that is only known once the resource exists (\<open>vpc.vpc_cidr_block\<close>,
  \<open>database.db_instance_endpoint_address\<close>, \<open>database.db_instance_endpoint_port\<close>,
  \<open>db_secret.secret_value\<close>) is a token that names the construct it will be read from.
\<close>

datatype token =
    vpc_cidr_block construct_id
  | db_instance_endpoint_address construct_id
  | db_instance_endpoint_port construct_id
  | secret_value construct_id

text \<open>
  A Python \<open>str\<close> that may carry tokens, as the f-string of \<open>SONAR_JDBC_URL\<close> does:
  the literal pieces and the tokens, in order.
\<close>

datatype fragment = Lit string | Tok token

type_synonym token_string = "fragment list"

fun resolve_fragment :: "(token \<Rightarrow> string) \<Rightarrow> fragment \<Rightarrow> string" where
  "resolve_fragment env (Lit l) = l"
| "resolve_fragment env (Tok t) = env t"

definition resolve :: "(token \<Rightarrow> string) \<Rightarrow> token_string \<Rightarrow> string" where
  "resolve env s = concat (map (resolve_fragment env) s)"

fun tokens_of :: "token_string \<Rightarrow> token list" where
  "tokens_of [] = []"
| "tokens_of (Lit l # fs) = tokens_of fs"
| "tokens_of (Tok t # fs) = t # tokens_of fs"

definition unsafe_unwrap :: "token \<Rightarrow> token_string" where
  "unsafe_unwrap t = [Tok t]"

section \<open>The resources and their properties\<close>

subsection \<open>Network\<close>

datatype SubnetType = PUBLIC | PRIVATE_WITH_EGRESS | PRIVATE_ISOLATED

record SubnetConfiguration =
  name :: string
  subnet_type :: SubnetType

record Vpc =
  max_azs :: int
  subnet_configuration :: "SubnetConfiguration list"

subsection \<open>Credential secret\<close>

record SecretStringGenerator =
  secret_string_template :: string
  generate_string_key :: string

record Secret =
  generate_secret_string :: SecretStringGenerator

subsection \<open>Subnet group and access-control groups\<close>

text \<open>
  \<open>rds.SubnetGroup\<close> is declared with \<open>vpc\<close>, \<open>subnet_group_name\<close> and \<open>description\<close>;
  its optional \<open>vpc_subnets\<close> is not passed, which is \<open>None\<close> here.
\<close>

record SubnetGroup =
  sng_vpc :: construct_id
  subnet_group_name :: string
  sng_description :: string
  sng_vpc_subnets :: "SubnetType option"

datatype Peer = ipv4 token_string | any_ipv4

datatype Port = tcp int | all_traffic

record IngressRule =
  rule_peer :: Peer
  rule_connection :: Port
  rule_description :: string

record SecurityGroup =
  sg_vpc :: construct_id
  sg_description :: "string option"
  allow_all_outbound :: bool
  ingress_rules :: "IngressRule list"

subsection \<open>Database instance\<close>

datatype PostgresEngineVersion = VER_13 | VER_14 | VER_15

datatype DatabaseInstanceEngine = postgres PostgresEngineVersion

datatype InstanceClass = BURSTABLE2 | BURSTABLE3 | STANDARD5

datatype InstanceSize = MICRO | SMALL | MEDIUM | LARGE

datatype InstanceType = InstanceType_of InstanceClass InstanceSize

datatype Credentials = from_secret construct_id

record SubnetSelection =
  subnet_group :: construct_id

datatype StorageType = STANDARD | GP2 | GP3 | IO1

datatype RemovalPolicy = DESTROY | RETAIN | SNAPSHOT

record DatabaseInstance =
  engine :: DatabaseInstanceEngine
  instance_type :: InstanceType
  db_vpc :: construct_id
  credentials :: Credentials
  vpc_subnets :: SubnetSelection
  db_security_groups :: "construct_id list"
  database_name :: string
  allocated_storage :: int
  storage_type :: StorageType
  multi_az :: bool
  db_removal_policy :: RemovalPolicy
  deletion_protection :: bool

subsection \<open>Cluster, task definition, log group\<close>

record Cluster =
  cluster_vpc :: construct_id

datatype ContainerImage = from_docker_hub string

record AwsLogDriver =
  stream_prefix :: string
  log_group :: construct_id

record PortMapping =
  container_port :: int

text \<open>The \<open>environment\<close> dict keeps its keys in the order of the source.\<close>

record ContainerDefinition =
  container_id :: string
  image :: ContainerImage
  container_memory_limit_mib :: int
  container_cpu :: int
  logging :: AwsLogDriver
  environment :: "(string \<times> token_string) list"
  port_mappings :: "PortMapping list"

record FargateTaskDefinition =
  cpu :: int
  memory_limit_mib :: int
  containers :: "ContainerDefinition list"

record LogGroup =
  log_group_name :: string
  lg_removal_policy :: RemovalPolicy

subsection \<open>Load-balanced service\<close>

text \<open>
  The target group of the service carries the health-check path; it is \<open>None\<close> until
  \<open>configure_health_check\<close> sets it.
\<close>

record ApplicationLoadBalancedFargateService =
  svc_cluster :: construct_id
  svc_task_definition :: construct_id
  public_load_balancer :: bool
  desired_count :: int
  svc_security_groups :: "construct_id list"
  health_check_path :: "string option"

subsection \<open>Permission grants\<close>

datatype Principal = task_role construct_id

datatype Access = READ | WRITE

record Grant =
  grant_secret :: construct_id
  grantee :: Principal
  access :: Access

section \<open>The stack\<close>

datatype resource =
    VpcR Vpc
  | SecretR Secret
  | SubnetGroupR SubnetGroup
  | SecurityGroupR SecurityGroup
  | DatabaseInstanceR DatabaseInstance
  | ClusterR Cluster
  | FargateTaskDefinitionR FargateTaskDefinition
  | LogGroupR LogGroup
  | ServiceR ApplicationLoadBalancedFargateService

record stack =
  children :: "(construct_id \<times> resource) list"
  grants :: "Grant list"

definition empty_stack :: stack where
  "empty_stack = \<lparr>children = [], grants = []\<rparr>"

definition add_construct :: "construct_id \<Rightarrow> resource \<Rightarrow> stack \<Rightarrow> stack" where
  "add_construct cid r s = s\<lparr>children := children s @ [(cid, r)]\<rparr>"

fun update_child ::
  "construct_id \<Rightarrow> (resource \<Rightarrow> resource) \<Rightarrow> construct_id \<times> resource \<Rightarrow> construct_id \<times> resource" where
  "update_child cid f (k, r) = (if k = cid then (k, f r) else (k, r))"

definition update_construct :: "construct_id \<Rightarrow> (resource \<Rightarrow> resource) \<Rightarrow> stack \<Rightarrow> stack" where
  "update_construct cid f s = s\<lparr>children := map (update_child cid f) (children s)\<rparr>"

definition lookup :: "stack \<Rightarrow> construct_id \<Rightarrow> resource option" where
  "lookup s cid = map_of (children s) cid"

subsection \<open>The methods the constructor calls on its constructs\<close>

fun append_ingress_rule :: "IngressRule \<Rightarrow> resource \<Rightarrow> resource" where
  "append_ingress_rule rule (SecurityGroupR g) =
     SecurityGroupR (g\<lparr>ingress_rules := ingress_rules g @ [rule]\<rparr>)"
| "append_ingress_rule rule r = r"

definition add_ingress_rule ::
  "construct_id \<Rightarrow> Peer \<Rightarrow> Port \<Rightarrow> string \<Rightarrow> stack \<Rightarrow> stack" where
  "add_ingress_rule sg peer connection description =
     update_construct sg
       (append_ingress_rule
          \<lparr>rule_peer = peer, rule_connection = connection, rule_description = description\<rparr>)"

fun append_container :: "ContainerDefinition \<Rightarrow> resource \<Rightarrow> resource" where
  "append_container c (FargateTaskDefinitionR t) =
     FargateTaskDefinitionR (t\<lparr>containers := containers t @ [c]\<rparr>)"
| "append_container c r = r"

definition add_container :: "construct_id \<Rightarrow> ContainerDefinition \<Rightarrow> stack \<Rightarrow> stack" where
  "add_container td c = update_construct td (append_container c)"

fun set_health_check_path :: "string \<Rightarrow> resource \<Rightarrow> resource" where
  "set_health_check_path p (ServiceR v) = ServiceR (v\<lparr>health_check_path := Some p\<rparr>)"
| "set_health_check_path p r = r"

definition configure_health_check :: "construct_id \<Rightarrow> string \<Rightarrow> stack \<Rightarrow> stack" where
  "configure_health_check svc p = update_construct svc (set_health_check_path p)"

definition grant_read :: "construct_id \<Rightarrow> Principal \<Rightarrow> stack \<Rightarrow> stack" where
  "grant_read secret p s =
     s\<lparr>grants := grants s @ [\<lparr>grant_secret = secret, grantee = p, access = READ\<rparr>]\<rparr>"

subsection \<open>The constructor of \<open>SonarQubeStack\<close>\<close>

text \<open>
  The body of \<open>SonarQubeStack.__init__\<close>, statement by statement. The source passes
  \<open>deletion_protection=False\<close> to the database; the flag is the parameter \<open>dp\<close> here, so
  that the declaration with the flag flipped can be compared with the one of the source.
\<close>

definition SonarQubeStack_init :: "bool \<Rightarrow> stack" where
  \<open>SonarQubeStack_init dp =
    (let s = empty_stack;
         vpc = ''SonarQubeVPC'';
         s = add_construct vpc (VpcR
               \<lparr>max_azs = 2,
                subnet_configuration =
                  [\<lparr>name = ''public'', subnet_type = PUBLIC\<rparr>,
                   \<lparr>name = ''private'', subnet_type = PRIVATE_WITH_EGRESS\<rparr>]\<rparr>) s;
         db_secret = ''SonarQubeDBSecret'';
         s = add_construct db_secret (SecretR
               \<lparr>generate_secret_string =
                  \<lparr>secret_string_template = ''{"username": "sonar"}'',
                   generate_string_key = ''password''\<rparr>\<rparr>) s;
         db_subnet_group = ''SonarQubeDBSubnetGroup'';
         s = add_construct db_subnet_group (SubnetGroupR
               \<lparr>sng_vpc = vpc,
                subnet_group_name = ''sonarqube-db-subnet-group'',
                sng_description = ''Subnet group for SonarQube database'',
                sng_vpc_subnets = None\<rparr>) s;
         db_security_group = ''SonarQubeDBSecurityGroup'';
         s = add_construct db_security_group (SecurityGroupR
               \<lparr>sg_vpc = vpc,
                sg_description = Some ''Allow SonarQube ECS to access RDS'',
                allow_all_outbound = False,
                ingress_rules = []\<rparr>) s;
         s = add_ingress_rule db_security_group
               (ipv4 [Tok (vpc_cidr_block vpc)])
               (tcp 5432)
               ''Allow SonarQube ECS to access RDS'' s;
         database = ''SonarQubeDatabase'';
         s = add_construct database (DatabaseInstanceR
               \<lparr>engine = postgres VER_14,
                instance_type = InstanceType_of BURSTABLE3 MEDIUM,
                db_vpc = vpc,
                credentials = from_secret db_secret,
                vpc_subnets = \<lparr>subnet_group = db_subnet_group\<rparr>,
                db_security_groups = [db_security_group],
                database_name = ''sonarqube'',
                allocated_storage = 20,
                storage_type = GP2,
                multi_az = True,
                db_removal_policy = DESTROY,
                deletion_protection = dp\<rparr>) s;
         cluster = ''SonarQubeCluster'';
         s = add_construct cluster (ClusterR \<lparr>cluster_vpc = vpc\<rparr>) s;
         task_definition = ''SonarQubeTaskDefinition'';
         s = add_construct task_definition (FargateTaskDefinitionR
               \<lparr>cpu = 2048, memory_limit_mib = 4096, containers = []\<rparr>) s;
         log_group = ''SonarQubeLogGroup'';
         s = add_construct log_group (LogGroupR
               \<lparr>log_group_name = ''/ecs/sonarqube'', lg_removal_policy = DESTROY\<rparr>) s;
         s = add_container task_definition
               \<lparr>container_id = ''SonarQubeContainer'',
                image = from_docker_hub ''sonarqube:enterprise'',
                container_memory_limit_mib = 4096,
                container_cpu = 2048,
                logging = \<lparr>stream_prefix = ''sonarqube'', log_group = log_group\<rparr>,
                environment =
                  [(''SONAR_JDBC_URL'',
                      [Lit ''jdbc:postgresql://'',
                       Tok (db_instance_endpoint_address database),
                       Lit '':'',
                       Tok (db_instance_endpoint_port database),
                       Lit ''/sonarqube'']),
                   (''SONAR_JDBC_USERNAME'', [Lit ''sonar'']),
                   (''SONAR_JDBC_PASSWORD'', unsafe_unwrap (secret_value db_secret)),
                   (''SONAR_WEB_JAVAOPTS'',
                      [Lit ''-Xmx2048m -Xms256m -XX:+HeapDumpOnOutOfMemoryError'']),
                   (''SONAR_SEARCH_JAVAOPTS'',
                      [Lit ''-Xmx2048m -Xms256m -XX:+HeapDumpOnOutOfMemoryError''])],
                port_mappings = [\<lparr>container_port = 9000\<rparr>]\<rparr> s;
         service_sg = ''SonarQubeServiceSG'';
         s = add_construct service_sg (SecurityGroupR
               \<lparr>sg_vpc = vpc,
                sg_description = None,
                allow_all_outbound = True,
                ingress_rules = []\<rparr>) s;
         service = ''SonarQubeService'';
         service_props =
               \<lparr>svc_cluster = cluster,
                svc_task_definition = task_definition,
                public_load_balancer = True,
                desired_count = 1,
                svc_security_groups = [service_sg],
                health_check_path = None\<rparr>;
         s = add_construct service (ServiceR service_props) s;
         s = configure_health_check service ''/sessions/new'' s;
         s = grant_read db_secret (task_role (svc_task_definition service_props)) s
     in s)\<close>

definition SonarQubeStack :: stack where
  "SonarQubeStack = SonarQubeStack_init False"

section \<open>Reading the declared graph\<close>

subsection \<open>Constructs by kind\<close>

fun secrets :: "(construct_id \<times> resource) list \<Rightarrow> (construct_id \<times> Secret) list" where
  "secrets [] = []"
| "secrets ((k, SecretR v) # cs) = (k, v) # secrets cs"
| "secrets (c # cs) = secrets cs"

fun services ::
  "(construct_id \<times> resource) list \<Rightarrow> (construct_id \<times> ApplicationLoadBalancedFargateService) list" where
  "services [] = []"
| "services ((k, ServiceR v) # cs) = (k, v) # services cs"
| "services (c # cs) = services cs"

fun vpc_of :: "resource option \<Rightarrow> Vpc option" where
  "vpc_of (Some (VpcR v)) = Some v"
| "vpc_of r = None"

fun security_group_of :: "resource option \<Rightarrow> SecurityGroup option" where
  "security_group_of (Some (SecurityGroupR g)) = Some g"
| "security_group_of r = None"

fun subnet_group_of :: "resource option \<Rightarrow> SubnetGroup option" where
  "subnet_group_of (Some (SubnetGroupR g)) = Some g"
| "subnet_group_of r = None"

fun database_of :: "resource option \<Rightarrow> DatabaseInstance option" where
  "database_of (Some (DatabaseInstanceR d)) = Some d"
| "database_of r = None"

fun task_definition_of :: "resource option \<Rightarrow> FargateTaskDefinition option" where
  "task_definition_of (Some (FargateTaskDefinitionR t)) = Some t"
| "task_definition_of r = None"

fun service_of :: "resource option \<Rightarrow> ApplicationLoadBalancedFargateService option" where
  "service_of (Some (ServiceR v)) = Some v"
| "service_of r = None"

subsection \<open>The environment of a container\<close>

fun container_environment ::
  "FargateTaskDefinition option \<Rightarrow> string \<Rightarrow> (string \<times> token_string) list" where
  "container_environment None c = []"
| "container_environment (Some t) c =
     concat (map environment (filter (\<lambda>d. container_id d = c) (containers t)))"

definition env_value :: "stack \<Rightarrow> construct_id \<Rightarrow> string \<Rightarrow> string \<Rightarrow> token_string option" where
  "env_value s td c key = map_of (container_environment (task_definition_of (lookup s td)) c) key"

fun env_tokens :: "token_string option \<Rightarrow> token list" where
  "env_tokens None = []"
| "env_tokens (Some v) = tokens_of v"

subsection \<open>Where a secret is referenced\<close>

text \<open>
  The declaration of a resource references a secret in two kinds of places: as the
  credentials of a database (\<open>rds.Credentials.from_secret\<close>), and as a token inside an
  environment value of a container (\<open>secret_value\<close>). A grant relates a principal to a
  secret; it is no part of the declaration of a resource and is held apart, in \<open>grants\<close>.
\<close>

datatype secret_use =
    DatabaseCredentials construct_id
  | ContainerEnvironment construct_id string string

fun env_uses :: "construct_id \<Rightarrow> construct_id \<Rightarrow> ContainerDefinition \<Rightarrow> secret_use list" where
  "env_uses sid td c =
     map (\<lambda>(key, v). ContainerEnvironment td (container_id c) key)
       (filter (\<lambda>(key, v). secret_value sid \<in> set (tokens_of v)) (environment c))"

fun resource_uses :: "construct_id \<Rightarrow> construct_id \<times> resource \<Rightarrow> secret_use list" where
  "resource_uses sid (k, DatabaseInstanceR d) =
     (if credentials d = from_secret sid then [DatabaseCredentials k] else [])"
| "resource_uses sid (k, FargateTaskDefinitionR t) = concat (map (env_uses sid k) (containers t))"
| "resource_uses sid (k, r) = []"

definition secret_references :: "stack \<Rightarrow> construct_id \<Rightarrow> secret_use list" where
  "secret_references s sid = concat (map (resource_uses sid) (children s))"

subsection \<open>Inbound traffic through an access-control group\<close>

text \<open>
  Modelled from the spec: the matcher of an access-control group (spec section 8, "address
  outside CIDR is rejected by the group's matcher") belongs to the platform and is not in
  the source. A group admits an inbound packet when one of its declared ingress rules
  does, and rejects it otherwise. How the platform reads the address range out of a string
  that carries a token is the parameter \<open>rng\<close>.
\<close>

type_synonym cidr = "32 word \<times> nat"

fun in_cidr :: "cidr \<Rightarrow> 32 word \<Rightarrow> bool" where
  "in_cidr (base, len) a \<longleftrightarrow> len \<le> 32 \<and> drop_bit (32 - len) a = drop_bit (32 - len) base"

datatype Protocol = TCP | UDP | ICMP

record Packet =
  src_addr :: "32 word"
  protocol :: Protocol
  dst_port :: int

fun peer_matches :: "(token_string \<Rightarrow> cidr option) \<Rightarrow> Peer \<Rightarrow> 32 word \<Rightarrow> bool" where
  "peer_matches rng (ipv4 c) a = (case rng c of None \<Rightarrow> False | Some r \<Rightarrow> in_cidr r a)"
| "peer_matches rng any_ipv4 a = True"

fun port_matches :: "Port \<Rightarrow> Packet \<Rightarrow> bool" where
  "port_matches (tcp p) pkt = (protocol pkt = TCP \<and> dst_port pkt = p)"
| "port_matches all_traffic pkt = True"

definition rule_admits :: "(token_string \<Rightarrow> cidr option) \<Rightarrow> Packet \<Rightarrow> IngressRule \<Rightarrow> bool" where
  "rule_admits rng pkt r \<longleftrightarrow>
     peer_matches rng (rule_peer r) (src_addr pkt) \<and> port_matches (rule_connection r) pkt"

fun admits_inbound ::
  "(token_string \<Rightarrow> cidr option) \<Rightarrow> SecurityGroup option \<Rightarrow> Packet \<Rightarrow> bool" where
  "admits_inbound rng None pkt = False"
| "admits_inbound rng (Some g) pkt = list_ex (rule_admits rng pkt) (ingress_rules g)"

subsection \<open>Zones and subnets of the network\<close>

text \<open>
  Modelled from the spec: how the provisioning engine spreads the network over zones is
  not in the source, which declares the zone count only (\<open>max_azs=2\<close>). Spec section 4.1,
  step 1: the network is declared across its zone count, and an environment that cannot
  satisfy the zone count is a failure that the engine surfaces. The zones that the
  environment offers are the parameter \<open>offered\<close>; \<open>None\<close> is the failure of the engine.
\<close>

fun availability_zones :: "Vpc option \<Rightarrow> string list \<Rightarrow> string list option" where
  "availability_zones None offered = None"
| "availability_zones (Some v) offered =
     (if int (length offered) < max_azs v then None
      else Some (take (nat (max_azs v)) offered))"

fun subnet_tiers :: "Vpc option \<Rightarrow> SubnetType list" where
  "subnet_tiers None = []"
| "subnet_tiers (Some v) = map subnet_type (subnet_configuration v)"

text \<open>
  Modelled from the spec: where the SDK places a subnet group that is declared without a
  subnet selection is not in the source. The spec binds the database to the private
  subnet tier; the SDK's default for \<open>rds.SubnetGroup\<close> is the private subnets, and a
  selection that is passed is taken as it is.
\<close>

fun placement :: "SubnetType option \<Rightarrow> SubnetType" where
  "placement None = PRIVATE_WITH_EGRESS"
| "placement (Some t) = t"

fun subnets_of_group :: "stack \<Rightarrow> SubnetGroup option \<Rightarrow> SubnetConfiguration list" where
  "subnets_of_group s None = []"
| "subnets_of_group s (Some g) =
     (case vpc_of (lookup s (sng_vpc g)) of
        None \<Rightarrow> []
      | Some v \<Rightarrow>
          filter (\<lambda>c. subnet_type c = placement (sng_vpc_subnets g)) (subnet_configuration v))"

fun database_subnets :: "stack \<Rightarrow> DatabaseInstance option \<Rightarrow> SubnetConfiguration list" where
  "database_subnets s None = []"
| "database_subnets s (Some d) =
     subnets_of_group s (subnet_group_of (lookup s (subnet_group (vpc_subnets d))))"

subsection \<open>Health check and task requests of a service\<close>

text \<open>
  The path the load balancer polls: the override when one is configured, and the
  engine's own default \<open>dflt\<close> otherwise.
\<close>

fun effective_health_check_path ::
  "string \<Rightarrow> ApplicationLoadBalancedFargateService option \<Rightarrow> string option" where
  "effective_health_check_path dflt None = None"
| "effective_health_check_path dflt (Some v) =
     (case health_check_path v of None \<Rightarrow> Some dflt | Some p \<Rightarrow> Some p)"

definition task_requests :: "stack \<Rightarrow> (construct_id \<times> int) list" where
  "task_requests s = map (\<lambda>(k, v). (svc_task_definition v, desired_count v)) (services (children s))"

section \<open>The declared graph, computed\<close>

lemmas constructor_defs =
  SonarQubeStack_init_def Let_def empty_stack_def add_construct_def update_construct_def
  add_ingress_rule_def add_container_def configure_health_check_def grant_read_def
  unsafe_unwrap_def

lemma children_init:
  \<open>children (SonarQubeStack_init dp) =
    [(''SonarQubeVPC'', VpcR
        \<lparr>max_azs = 2,
         subnet_configuration =
           [\<lparr>name = ''public'', subnet_type = PUBLIC\<rparr>,
            \<lparr>name = ''private'', subnet_type = PRIVATE_WITH_EGRESS\<rparr>]\<rparr>),
     (''SonarQubeDBSecret'', SecretR
        \<lparr>generate_secret_string =
           \<lparr>secret_string_template = ''{"username": "sonar"}'',
            generate_string_key = ''password''\<rparr>\<rparr>),
     (''SonarQubeDBSubnetGroup'', SubnetGroupR
        \<lparr>sng_vpc = ''SonarQubeVPC'',
         subnet_group_name = ''sonarqube-db-subnet-group'',
         sng_description = ''Subnet group for SonarQube database'',
         sng_vpc_subnets = None\<rparr>),
     (''SonarQubeDBSecurityGroup'', SecurityGroupR
        \<lparr>sg_vpc = ''SonarQubeVPC'',
         sg_description = Some ''Allow SonarQube ECS to access RDS'',
         allow_all_outbound = False,
         ingress_rules =
           [\<lparr>rule_peer = ipv4 [Tok (vpc_cidr_block ''SonarQubeVPC'')],
             rule_connection = tcp 5432,
             rule_description = ''Allow SonarQube ECS to access RDS''\<rparr>]\<rparr>),
     (''SonarQubeDatabase'', DatabaseInstanceR
        \<lparr>engine = postgres VER_14,
         instance_type = InstanceType_of BURSTABLE3 MEDIUM,
         db_vpc = ''SonarQubeVPC'',
         credentials = from_secret ''SonarQubeDBSecret'',
         vpc_subnets = \<lparr>subnet_group = ''SonarQubeDBSubnetGroup''\<rparr>,
         db_security_groups = [''SonarQubeDBSecurityGroup''],
         database_name = ''sonarqube'',
         allocated_storage = 20,
         storage_type = GP2,
         multi_az = True,
         db_removal_policy = DESTROY,
         deletion_protection = dp\<rparr>),
     (''SonarQubeCluster'', ClusterR \<lparr>cluster_vpc = ''SonarQubeVPC''\<rparr>),
     (''SonarQubeTaskDefinition'', FargateTaskDefinitionR
        \<lparr>cpu = 2048,
         memory_limit_mib = 4096,
         containers =
           [\<lparr>container_id = ''SonarQubeContainer'',
             image = from_docker_hub ''sonarqube:enterprise'',
             container_memory_limit_mib = 4096,
             container_cpu = 2048,
             logging = \<lparr>stream_prefix = ''sonarqube'', log_group = ''SonarQubeLogGroup''\<rparr>,
             environment =
               [(''SONAR_JDBC_URL'',
                   [Lit ''jdbc:postgresql://'',
                    Tok (db_instance_endpoint_address ''SonarQubeDatabase''),
                    Lit '':'',
                    Tok (db_instance_endpoint_port ''SonarQubeDatabase''),
                    Lit ''/sonarqube'']),
                (''SONAR_JDBC_USERNAME'', [Lit ''sonar'']),
                (''SONAR_JDBC_PASSWORD'', [Tok (secret_value ''SonarQubeDBSecret'')]),
                (''SONAR_WEB_JAVAOPTS'',
                   [Lit ''-Xmx2048m -Xms256m -XX:+HeapDumpOnOutOfMemoryError'']),
                (''SONAR_SEARCH_JAVAOPTS'',
                   [Lit ''-Xmx2048m -Xms256m -XX:+HeapDumpOnOutOfMemoryError''])],
             port_mappings = [\<lparr>container_port = 9000\<rparr>]\<rparr>]\<rparr>),
     (''SonarQubeLogGroup'', LogGroupR
        \<lparr>log_group_name = ''/ecs/sonarqube'', lg_removal_policy = DESTROY\<rparr>),
     (''SonarQubeServiceSG'', SecurityGroupR
        \<lparr>sg_vpc = ''SonarQubeVPC'',
         sg_description = None,
         allow_all_outbound = True,
         ingress_rules = []\<rparr>),
     (''SonarQubeService'', ServiceR
        \<lparr>svc_cluster = ''SonarQubeCluster'',
         svc_task_definition = ''SonarQubeTaskDefinition'',
         public_load_balancer = True,
         desired_count = 1,
         svc_security_groups = [''SonarQubeServiceSG''],
         health_check_path = Some ''/sessions/new''\<rparr>)]\<close>
  by (simp add: constructor_defs)

lemma grants_init:
  "grants (SonarQubeStack_init dp) =
    [\<lparr>grant_secret = ''SonarQubeDBSecret'',
      grantee = task_role ''SonarQubeTaskDefinition'',
      access = READ\<rparr>]"
  by (simp add: constructor_defs)

lemma construct_ids_distinct: "distinct (map fst (children (SonarQubeStack_init dp)))"
  by (simp add: children_init)

lemma lookup_init:
  "lookup (SonarQubeStack_init dp) cid = map_of (children (SonarQubeStack_init dp)) cid"
  by (simp add: lookup_def)

lemma vpc_init:
  "vpc_of (lookup (SonarQubeStack_init dp) ''SonarQubeVPC'') =
     Some \<lparr>max_azs = 2,
           subnet_configuration =
             [\<lparr>name = ''public'', subnet_type = PUBLIC\<rparr>,
              \<lparr>name = ''private'', subnet_type = PRIVATE_WITH_EGRESS\<rparr>]\<rparr>"
  by (simp add: lookup_init children_init)

lemma zones_init:
  "availability_zones (vpc_of (lookup (SonarQubeStack_init dp) ''SonarQubeVPC'')) offered =
     (if length offered < 2 then None else Some (take 2 offered))"
  by (simp add: vpc_init)

section \<open>The credential secret\<close>

text \<open>
  Claim C1. The stack generates exactly one secret, \<open>SonarQubeDBSecret\<close>, from the template
  with the fixed username \<open>sonar\<close> and the generated key \<open>password\<close>. That one secret is
  referenced by identity in exactly two places: the credentials of the database, and the
  environment of the container (\<open>SONAR_JDBC_PASSWORD\<close>). The database takes the secret as
  it is (\<open>from_secret\<close>), so no second secret is generated.
\<close>

theorem secret_generated_once_referenced_twice:
  \<open>secrets (children SonarQubeStack) =
     [(''SonarQubeDBSecret'',
       \<lparr>generate_secret_string =
          \<lparr>secret_string_template = ''{"username": "sonar"}'',
           generate_string_key = ''password''\<rparr>\<rparr>)]
   \<and> length (secrets (children SonarQubeStack)) = 1
   \<and> secret_references SonarQubeStack ''SonarQubeDBSecret'' =
     [DatabaseCredentials ''SonarQubeDatabase'',
      ContainerEnvironment ''SonarQubeTaskDefinition'' ''SonarQubeContainer''
        ''SONAR_JDBC_PASSWORD'']
   \<and> length (secret_references SonarQubeStack ''SonarQubeDBSecret'') = 2
   \<and> map_option credentials (database_of (lookup SonarQubeStack ''SonarQubeDatabase'')) =
     Some (from_secret ''SonarQubeDBSecret'')
   \<and> env_value SonarQubeStack ''SonarQubeTaskDefinition'' ''SonarQubeContainer''
       ''SONAR_JDBC_PASSWORD'' =
     Some [Tok (secret_value ''SonarQubeDBSecret'')]\<close>
  by (simp add: SonarQubeStack_def secret_references_def env_value_def lookup_init
      children_init)

section \<open>The connection string\<close>

text \<open>
  Claim C2, as the code has it. The connection string \<open>SONAR_JDBC_URL\<close> of the container
  is the literal \<open>jdbc:postgresql://\<close>, the token of the database's endpoint address,
  \<open>:\<close>, the token of its endpoint port, and \<open>/sonarqube\<close>, whose name is the database's
  \<open>database_name\<close>. Whatever the tokens resolve to, the resolved string carries exactly
  these resolved values, so no literal stands in for the endpoint. The credential secret
  is not one of the tokens of the connection string: its value is injected beside it, as
  \<open>SONAR_JDBC_PASSWORD\<close>.
\<close>

theorem jdbc_url_from_deferred_endpoint:
  "env_value SonarQubeStack ''SonarQubeTaskDefinition'' ''SonarQubeContainer''
       ''SONAR_JDBC_URL'' =
     Some [Lit ''jdbc:postgresql://'',
           Tok (db_instance_endpoint_address ''SonarQubeDatabase''),
           Lit '':'',
           Tok (db_instance_endpoint_port ''SonarQubeDatabase''),
           Lit ''/sonarqube'']
   \<and> map_option (resolve env)
        (env_value SonarQubeStack ''SonarQubeTaskDefinition'' ''SonarQubeContainer''
           ''SONAR_JDBC_URL'') =
     Some (''jdbc:postgresql://'' @ env (db_instance_endpoint_address ''SonarQubeDatabase'')
           @ '':'' @ env (db_instance_endpoint_port ''SonarQubeDatabase'') @ ''/sonarqube'')
   \<and> env_tokens
        (env_value SonarQubeStack ''SonarQubeTaskDefinition'' ''SonarQubeContainer''
           ''SONAR_JDBC_URL'') =
     [db_instance_endpoint_address ''SonarQubeDatabase'',
      db_instance_endpoint_port ''SonarQubeDatabase'']
   \<and> map_option database_name (database_of (lookup SonarQubeStack ''SonarQubeDatabase'')) =
     Some ''sonarqube''
   \<and> env_value SonarQubeStack ''SonarQubeTaskDefinition'' ''SonarQubeContainer''
       ''SONAR_JDBC_PASSWORD'' =
     Some [Tok (secret_value ''SonarQubeDBSecret'')]"
  by (simp add: SonarQubeStack_def env_value_def lookup_init children_init resolve_def)

text \<open>The connection string is not derived from the credential secret.\<close>

theorem jdbc_url_without_secret:
  "secret_value ''SonarQubeDBSecret'' \<notin>
     set (env_tokens
            (env_value SonarQubeStack ''SonarQubeTaskDefinition'' ''SonarQubeContainer''
               ''SONAR_JDBC_URL''))"
  by (simp add: SonarQubeStack_def env_value_def lookup_init children_init)

section \<open>The access-control groups\<close>

text \<open>
  Claim C3. The access-control group of the database, \<open>SonarQubeDBSecurityGroup\<close>, has one
  ingress rule: the address range of the network the database is in, TCP port 5432. So
  it admits an inbound packet exactly when the source address lies in the network's
  range, the protocol is TCP and the port is 5432, and rejects every packet from outside
  that range. Its \<open>allow_all_outbound\<close> is off; that of the service's group,
  \<open>SonarQubeServiceSG\<close>, is on.
\<close>

theorem db_security_group_inbound_outbound:
  "map_option ingress_rules
       (security_group_of (lookup SonarQubeStack ''SonarQubeDBSecurityGroup'')) =
     Some [\<lparr>rule_peer = ipv4 [Tok (vpc_cidr_block ''SonarQubeVPC'')],
            rule_connection = tcp 5432,
            rule_description = ''Allow SonarQube ECS to access RDS''\<rparr>]
   \<and> (admits_inbound rng
        (security_group_of (lookup SonarQubeStack ''SonarQubeDBSecurityGroup'')) pkt
      \<longleftrightarrow> (\<exists>r. rng [Tok (vpc_cidr_block ''SonarQubeVPC'')] = Some r \<and> in_cidr r (src_addr pkt))
           \<and> protocol pkt = TCP \<and> dst_port pkt = 5432)
   \<and> map_option allow_all_outbound
        (security_group_of (lookup SonarQubeStack ''SonarQubeDBSecurityGroup'')) = Some False
   \<and> map_option allow_all_outbound
        (security_group_of (lookup SonarQubeStack ''SonarQubeServiceSG'')) = Some True
   \<and> map_option db_security_groups (database_of (lookup SonarQubeStack ''SonarQubeDatabase'')) =
       Some [''SonarQubeDBSecurityGroup'']
   \<and> map_option db_vpc (database_of (lookup SonarQubeStack ''SonarQubeDatabase'')) =
       Some ''SonarQubeVPC''
   \<and> map_option svc_security_groups (service_of (lookup SonarQubeStack ''SonarQubeService'')) =
       Some [''SonarQubeServiceSG'']"
  by (auto simp add: SonarQubeStack_def lookup_init children_init rule_admits_def
      split: option.splits)

text \<open>
  With the network at 10.0.0.0/16: 10.0.1.5 is admitted on TCP 5432, 192.168.0.1 is
  rejected on the same port, and 10.0.1.5 is rejected on TCP 22.
\<close>

theorem db_security_group_inbound_outbound_witness:
  "admits_inbound (\<lambda>c. Some (0x0A000000, 16))
       (security_group_of (lookup SonarQubeStack ''SonarQubeDBSecurityGroup''))
       \<lparr>src_addr = 0x0A000105, protocol = TCP, dst_port = 5432\<rparr>
   \<and> \<not> admits_inbound (\<lambda>c. Some (0x0A000000, 16))
       (security_group_of (lookup SonarQubeStack ''SonarQubeDBSecurityGroup''))
       \<lparr>src_addr = 0xC0A80001, protocol = TCP, dst_port = 5432\<rparr>
   \<and> \<not> admits_inbound (\<lambda>c. Some (0x0A000000, 16))
       (security_group_of (lookup SonarQubeStack ''SonarQubeDBSecurityGroup''))
       \<lparr>src_addr = 0x0A000105, protocol = TCP, dst_port = 22\<rparr>"
  using
    db_security_group_inbound_outbound
      [of "\<lambda>c. Some (0x0A000000, 16)"
          "\<lparr>src_addr = 0x0A000105, protocol = TCP, dst_port = 5432\<rparr>"]
    db_security_group_inbound_outbound
      [of "\<lambda>c. Some (0x0A000000, 16)"
          "\<lparr>src_addr = 0xC0A80001, protocol = TCP, dst_port = 5432\<rparr>"]
    db_security_group_inbound_outbound
      [of "\<lambda>c. Some (0x0A000000, 16)"
          "\<lparr>src_addr = 0x0A000105, protocol = TCP, dst_port = 22\<rparr>"]
  by (simp add: drop_bit_eq_div)

section \<open>The network\<close>

text \<open>
  Claim C4. The network \<open>SonarQubeVPC\<close> has exactly two subnet tiers, a public one and a
  private one with egress, and its declared zone count is 2. Wherever the engine places
  the network, it is spread across at least two zones (the first two that the
  environment offers); it is placed whenever the environment offers two zones or more,
  and only then.
\<close>

theorem network_tiers_and_zones:
  "subnet_tiers (vpc_of (lookup SonarQubeStack ''SonarQubeVPC'')) = [PUBLIC, PRIVATE_WITH_EGRESS]
   \<and> map_option max_azs (vpc_of (lookup SonarQubeStack ''SonarQubeVPC'')) = Some 2
   \<and> (\<forall>zs. availability_zones (vpc_of (lookup SonarQubeStack ''SonarQubeVPC'')) offered = Some zs
          \<longrightarrow> 2 \<le> length zs \<and> zs = take 2 offered)
   \<and> (2 \<le> length offered \<longrightarrow>
        availability_zones (vpc_of (lookup SonarQubeStack ''SonarQubeVPC'')) offered =
          Some (take 2 offered))
   \<and> (availability_zones (vpc_of (lookup SonarQubeStack ''SonarQubeVPC'')) offered = None
        \<longleftrightarrow> length offered < 2)"
proof -
  have tiers: "subnet_tiers (vpc_of (lookup SonarQubeStack ''SonarQubeVPC'')) =
      [PUBLIC, PRIVATE_WITH_EGRESS]"
    by (simp add: SonarQubeStack_def vpc_init)
  have count: "map_option max_azs (vpc_of (lookup SonarQubeStack ''SonarQubeVPC'')) = Some 2"
    by (simp add: SonarQubeStack_def vpc_init)
  have zones: "availability_zones (vpc_of (lookup SonarQubeStack ''SonarQubeVPC'')) offered =
      (if length offered < 2 then None else Some (take 2 offered))"
    unfolding SonarQubeStack_def by (rule zones_init)
  have placed: "\<forall>zs. availability_zones (vpc_of (lookup SonarQubeStack ''SonarQubeVPC'')) offered
        = Some zs \<longrightarrow> 2 \<le> length zs \<and> zs = take 2 offered"
  proof (intro allI impI)
    fix zs
    assume "availability_zones (vpc_of (lookup SonarQubeStack ''SonarQubeVPC'')) offered = Some zs"
    with zones have enough: "\<not> length offered < 2" and eq: "zs = take 2 offered"
      by (simp_all split: if_splits)
    from enough eq show "2 \<le> length zs \<and> zs = take 2 offered"
      by simp
  qed
  have total: "2 \<le> length offered \<longrightarrow>
      availability_zones (vpc_of (lookup SonarQubeStack ''SonarQubeVPC'')) offered =
        Some (take 2 offered)"
    by (simp add: zones)
  have failure: "availability_zones (vpc_of (lookup SonarQubeStack ''SonarQubeVPC'')) offered = None
      \<longleftrightarrow> length offered < 2"
    by (simp add: zones)
  from tiers count placed total failure show ?thesis
    by (intro conjI)
qed

text \<open>
  In an environment that offers three zones the network is placed, in the first two of
  them.
\<close>

theorem network_tiers_and_zones_witness:
  "2 \<le> length [''zone-a'', ''zone-b'', ''zone-c'']
   \<and> availability_zones (vpc_of (lookup SonarQubeStack ''SonarQubeVPC''))
       [''zone-a'', ''zone-b'', ''zone-c''] = Some [''zone-a'', ''zone-b'']
   \<and> 2 \<le> length [''zone-a'', ''zone-b'']"
proof -
  have offered: "2 \<le> length [''zone-a'', ''zone-b'', ''zone-c'']"
    by simp
  from network_tiers_and_zones [of "[''zone-a'', ''zone-b'', ''zone-c'']"]
  have "2 \<le> length [''zone-a'', ''zone-b'', ''zone-c''] \<longrightarrow>
      availability_zones (vpc_of (lookup SonarQubeStack ''SonarQubeVPC''))
        [''zone-a'', ''zone-b'', ''zone-c''] = Some (take 2 [''zone-a'', ''zone-b'', ''zone-c''])"
    by (elim conjE)
  from this offered
  have "availability_zones (vpc_of (lookup SonarQubeStack ''SonarQubeVPC''))
      [''zone-a'', ''zone-b'', ''zone-c''] = Some (take 2 [''zone-a'', ''zone-b'', ''zone-c''])"
    by (rule mp)
  then show ?thesis
    by simp
qed

section \<open>The database instance\<close>

text \<open>
  Claim C5. The database \<open>SonarQubeDatabase\<close> is declared on the subnet group
  \<open>SonarQubeDBSubnetGroup\<close>, whose subnets are the private tier of the network; its
  access-control group is \<open>SonarQubeDBSecurityGroup\<close>; its credentials are the one
  generated secret; its storage is 20 GB of GP2; it is redundant across zones; it is
  destroyed on removal and not protected against deletion.
\<close>

theorem database_bindings:
  "database_of (lookup SonarQubeStack ''SonarQubeDatabase'') =
     Some \<lparr>engine = postgres VER_14,
           instance_type = InstanceType_of BURSTABLE3 MEDIUM,
           db_vpc = ''SonarQubeVPC'',
           credentials = from_secret ''SonarQubeDBSecret'',
           vpc_subnets = \<lparr>subnet_group = ''SonarQubeDBSubnetGroup''\<rparr>,
           db_security_groups = [''SonarQubeDBSecurityGroup''],
           database_name = ''sonarqube'',
           allocated_storage = 20,
           storage_type = GP2,
           multi_az = True,
           db_removal_policy = DESTROY,
           deletion_protection = False\<rparr>
   \<and> database_subnets SonarQubeStack (database_of (lookup SonarQubeStack ''SonarQubeDatabase'')) =
     [\<lparr>name = ''private'', subnet_type = PRIVATE_WITH_EGRESS\<rparr>]
   \<and> map_option sng_vpc (subnet_group_of (lookup SonarQubeStack ''SonarQubeDBSubnetGroup'')) =
     Some ''SonarQubeVPC''
   \<and> map_option sg_vpc (security_group_of (lookup SonarQubeStack ''SonarQubeDBSecurityGroup'')) =
     Some ''SonarQubeVPC''
   \<and> map fst (secrets (children SonarQubeStack)) = [''SonarQubeDBSecret'']"
  by (simp add: SonarQubeStack_def lookup_init children_init)

section \<open>The service\<close>

text \<open>
  Claim C6. The stack declares one service, \<open>SonarQubeService\<close>, with the desired count 1:
  the only request for task instances is one instance of \<open>SonarQubeTaskDefinition\<close>.
\<close>

theorem service_requests_one_task:
  "map_option desired_count (service_of (lookup SonarQubeStack ''SonarQubeService'')) = Some 1
   \<and> task_requests SonarQubeStack = [(''SonarQubeTaskDefinition'', 1)]
   \<and> sum_list (map snd (task_requests SonarQubeStack)) = 1"
  by (simp add: SonarQubeStack_def task_requests_def lookup_init children_init)

text \<open>
  Claim C7. The health-check path of the service is the configured override
  \<open>/sessions/new\<close>: the override is set, so the path that is polled is \<open>/sessions/new\<close>
  whatever the default of the engine is.
\<close>

theorem health_check_path_override:
  "map_option health_check_path (service_of (lookup SonarQubeStack ''SonarQubeService'')) =
     Some (Some ''/sessions/new'')
   \<and> effective_health_check_path dflt (service_of (lookup SonarQubeStack ''SonarQubeService'')) =
     Some ''/sessions/new''"
  by (simp add: SonarQubeStack_def lookup_init children_init)

section \<open>Flipping the deletion protection\<close>

text \<open>
  Claim C8. The source declares the database with \<open>deletion_protection=False\<close>. Declaring
  it with \<open>True\<close> instead leaves every other construct as it is: each construct other
  than \<open>SonarQubeDatabase\<close> has the same declaration, the constructs and their order are
  the same, the grants are the same, and the database differs in that one field only.
\<close>

theorem deletion_protection_frame:
  "(\<forall>cid. cid \<noteq> ''SonarQubeDatabase'' \<longrightarrow>
       lookup (SonarQubeStack_init True) cid = lookup (SonarQubeStack_init False) cid)
   \<and> map fst (children (SonarQubeStack_init True)) =
       map fst (children (SonarQubeStack_init False))
   \<and> grants (SonarQubeStack_init True) = grants (SonarQubeStack_init False)
   \<and> database_of (lookup (SonarQubeStack_init True) ''SonarQubeDatabase'') =
       map_option (\<lambda>d. d\<lparr>deletion_protection := True\<rparr>)
         (database_of (lookup (SonarQubeStack_init False) ''SonarQubeDatabase''))
   \<and> map_option deletion_protection
       (database_of (lookup (SonarQubeStack_init False) ''SonarQubeDatabase'')) = Some False
   \<and> SonarQubeStack = SonarQubeStack_init False"
  by (simp add: SonarQubeStack_def lookup_init children_init grants_init)

text \<open>The service, for one, is declared and is the same under both values of the flag.\<close>

theorem deletion_protection_frame_witness:
  "''SonarQubeService'' \<noteq> ''SonarQubeDatabase''
   \<and> lookup (SonarQubeStack_init True) ''SonarQubeService'' =
       lookup (SonarQubeStack_init False) ''SonarQubeService''
   \<and> lookup (SonarQubeStack_init False) ''SonarQubeService'' \<noteq> None"
proof -
  from deletion_protection_frame
  have frame: "\<forall>cid. cid \<noteq> ''SonarQubeDatabase'' \<longrightarrow>
          lookup (SonarQubeStack_init True) cid = lookup (SonarQubeStack_init False) cid"
    by (rule conjunct1)
  have declared: "lookup (SonarQubeStack_init False) ''SonarQubeService'' \<noteq> None"
    by (simp add: lookup_init children_init)
  from frame [rule_format, of "''SonarQubeService''"] declared
  show ?thesis
    by simp
qed

section \<open>The permission grant\<close>

text \<open>
  Claim C9. The stack declares one grant: read access to the credential secret for the
  task role of the task definition that the service runs. No grant with another access
  is declared.
\<close>

theorem grant_is_read_only:
  "grants SonarQubeStack =
     [\<lparr>grant_secret = ''SonarQubeDBSecret'',
       grantee = task_role ''SonarQubeTaskDefinition'',
       access = READ\<rparr>]
   \<and> filter (\<lambda>g. access g = WRITE) (grants SonarQubeStack) = []
   \<and> map_option svc_task_definition (service_of (lookup SonarQubeStack ''SonarQubeService'')) =
       Some ''SonarQubeTaskDefinition''
   \<and> map fst (secrets (children SonarQubeStack)) = [''SonarQubeDBSecret'']"
  by (simp add: SonarQubeStack_def lookup_init children_init grants_init)

section \<open>The username\<close>

text \<open>
  Claim C10. The username in the environment of the container, \<open>SONAR_JDBC_USERNAME\<close>, is the
  literal \<open>sonar\<close>, whatever the tokens resolve to, and the template of the credential
  secret is the JSON object whose \<open>username\<close> is that same \<open>sonar\<close>; the database takes
  its credentials from that secret.
\<close>

theorem username_agrees:
  \<open>map_option (resolve env)
      (env_value SonarQubeStack ''SonarQubeTaskDefinition'' ''SonarQubeContainer''
         ''SONAR_JDBC_USERNAME'') = Some ''sonar''
   \<and> map (\<lambda>(k, v). secret_string_template (generate_secret_string v))
         (secrets (children SonarQubeStack)) =
       [''{"username": "'' @ ''sonar'' @ ''"}'']
   \<and> map_option credentials (database_of (lookup SonarQubeStack ''SonarQubeDatabase'')) =
       Some (from_secret ''SonarQubeDBSecret'')\<close>
  by (simp add: SonarQubeStack_def env_value_def resolve_def lookup_init children_init)

end
